theory Spec2Isabelle
  imports Complex_Main "HOL-Library.Char_ord" "HOL-Library.List_Lexorder"
begin

section \<open>Floating-point values\<close>

text \<open>
  The tables of \<^verbatim>\<open>postproc_pk1d.py\<close> hold NumPy \<^verbatim>\<open>float64\<close> values. They are
  modelled as the reals extended by the two infinities and by NaN. Rounding, overflow and
  the sign of zero are not modelled: a finite result is the exact real result, and a
  nonzero value divided by zero is the infinity with the sign of the numerator. What is
  modelled is what the code relies on: NaN is absorbing in arithmetic, every ordered
  comparison with NaN is false, \<open>0 / 0\<close> and \<open>inf - inf\<close> are NaN.
\<close>

datatype fl = Fin real | PInf | NInf | NaN

fun fneg :: "fl \<Rightarrow> fl" where
  "fneg (Fin a) = Fin (- a)"
| "fneg PInf = NInf"
| "fneg NInf = PInf"
| "fneg NaN = NaN"

fun fadd :: "fl \<Rightarrow> fl \<Rightarrow> fl" where
  "fadd (Fin a) (Fin b) = Fin (a + b)"
| "fadd NaN _ = NaN"
| "fadd _ NaN = NaN"
| "fadd PInf NInf = NaN"
| "fadd NInf PInf = NaN"
| "fadd PInf _ = PInf"
| "fadd _ PInf = PInf"
| "fadd NInf _ = NInf"
| "fadd _ NInf = NInf"

definition fsub :: "fl \<Rightarrow> fl \<Rightarrow> fl" where
  "fsub a b = fadd a (fneg b)"

fun fmul :: "fl \<Rightarrow> fl \<Rightarrow> fl" where
  "fmul (Fin a) (Fin b) = Fin (a * b)"
| "fmul NaN _ = NaN"
| "fmul _ NaN = NaN"
| "fmul PInf (Fin b) = (if b = 0 then NaN else if 0 < b then PInf else NInf)"
| "fmul NInf (Fin b) = (if b = 0 then NaN else if 0 < b then NInf else PInf)"
| "fmul (Fin a) PInf = (if a = 0 then NaN else if 0 < a then PInf else NInf)"
| "fmul (Fin a) NInf = (if a = 0 then NaN else if 0 < a then NInf else PInf)"
| "fmul PInf PInf = PInf"
| "fmul PInf NInf = NInf"
| "fmul NInf PInf = NInf"
| "fmul NInf NInf = PInf"

fun fdiv :: "fl \<Rightarrow> fl \<Rightarrow> fl" where
  "fdiv (Fin a) (Fin b) =
     (if b = 0 then (if a = 0 then NaN else if 0 < a then PInf else NInf)
      else Fin (a / b))"
| "fdiv NaN _ = NaN"
| "fdiv _ NaN = NaN"
| "fdiv (Fin a) PInf = Fin 0"
| "fdiv (Fin a) NInf = Fin 0"
| "fdiv PInf (Fin b) = (if 0 \<le> b then PInf else NInf)"
| "fdiv NInf (Fin b) = (if 0 \<le> b then NInf else PInf)"
| "fdiv PInf PInf = NaN"
| "fdiv PInf NInf = NaN"
| "fdiv NInf PInf = NaN"
| "fdiv NInf NInf = NaN"

fun fsqrt :: "fl \<Rightarrow> fl" where
  "fsqrt (Fin a) = (if a < 0 then NaN else Fin (sqrt a))"
| "fsqrt PInf = PInf"
| "fsqrt NInf = NaN"
| "fsqrt NaN = NaN"

fun fabs :: "fl \<Rightarrow> fl" where
  "fabs (Fin a) = Fin \<bar>a\<bar>"
| "fabs PInf = PInf"
| "fabs NInf = PInf"
| "fabs NaN = NaN"

text \<open>The comparisons \<^verbatim>\<open><\<close>, \<^verbatim>\<open><=\<close> and \<^verbatim>\<open>==\<close> of NumPy: false as soon as one side is NaN.\<close>

fun flt :: "fl \<Rightarrow> fl \<Rightarrow> bool" where
  "flt (Fin a) (Fin b) = (a < b)"
| "flt NaN _ = False"
| "flt _ NaN = False"
| "flt _ NInf = False"
| "flt PInf _ = False"
| "flt NInf _ = True"
| "flt _ PInf = True"

fun feq :: "fl \<Rightarrow> fl \<Rightarrow> bool" where
  "feq NaN _ = False"
| "feq _ NaN = False"
| "feq a b = (a = b)"

definition fle :: "fl \<Rightarrow> fl \<Rightarrow> bool" where
  "fle a b = (flt a b \<or> feq a b)"

definition fgt :: "fl \<Rightarrow> fl \<Rightarrow> bool" where
  "fgt a b = flt b a"

definition isnan :: "fl \<Rightarrow> bool" where
  "isnan a = (a = NaN)"

definition of_count :: "nat \<Rightarrow> fl" where
  "of_count n = Fin (real n)"

definition of_integer :: "int \<Rightarrow> fl" where
  "of_integer n = Fin (real_of_int n)"

text \<open>\<^verbatim>\<open>np.sum\<close> and \<^verbatim>\<open>np.nansum\<close> (NaN counted as zero) over a column.\<close>

fun fsum :: "fl list \<Rightarrow> fl" where
  "fsum [] = Fin 0"
| "fsum (x # xs) = fadd x (fsum xs)"

definition nansum :: "fl list \<Rightarrow> fl" where
  "nansum xs = fsum (map (\<lambda>x. if isnan x then Fin 0 else x) xs)"

section \<open>Errors and tables\<close>

text \<open>The exceptions the module raises, or lets escape from NumPy and astropy.\<close>

datatype error = KeyError | ValueError | RuntimeError | ZeroDivisionError | IndexError

definition ebind :: "error + 'a \<Rightarrow> ('a \<Rightarrow> error + 'b) \<Rightarrow> error + 'b" where
  "ebind m f = (case m of Inl e \<Rightarrow> Inl e | Inr x \<Rightarrow> f x)"

text \<open>
  An astropy \<^verbatim>\<open>Table\<close> is an ordered list of named columns of equal length. The columns
  read from a file and those derived from them are float columns; \<^verbatim>\<open>forest_id\<close> is an
  integer column and \<^verbatim>\<open>sub_forest_id\<close>, present only when the header has a
  \<^verbatim>\<open>CHUNK_ID\<close>, a string column.
\<close>

type_synonym column = "fl list"
type_synonym ftable = "(string \<times> column) list"

record p1d_table =
  fcols :: ftable
  forest_id :: "int list"
  sub_forest_id :: "string list option"

definition colnames :: "ftable \<Rightarrow> string list" where
  "colnames T = map fst T"

definition getcol :: "ftable \<Rightarrow> string \<Rightarrow> error + column" where
  "getcol T name = (case map_of T name of None \<Rightarrow> Inl KeyError | Some c \<Rightarrow> Inr c)"

text \<open>\<^verbatim>\<open>table[name] = column\<close>: replaces the column in place, or appends a new one.\<close>

definition setcol :: "string \<Rightarrow> column \<Rightarrow> ftable \<Rightarrow> ftable" where
  "setcol name c T =
     (if name \<in> set (colnames T) then map (\<lambda>(n, c'). (n, if n = name then c else c')) T
      else T @ [(name, c)])"

definition nrows :: "ftable \<Rightarrow> nat" where
  "nrows T = (case T of [] \<Rightarrow> 0 | (_, c) # _ \<Rightarrow> length c)"

text \<open>Boolean-mask indexing \<^verbatim>\<open>column[mask]\<close>.\<close>

definition by_mask :: "'a list \<Rightarrow> bool list \<Rightarrow> 'a list" where
  "by_mask xs sel = map fst (filter snd (zip xs sel))"

section \<open>Record ingestion: \<^verbatim>\<open>read_pk1d\<close>\<close>

text \<open>One HDU of the input file: the data table and the header fields the reader uses.\<close>

record hdu =
  data :: ftable
  MEANZ :: fl
  MEANSNR :: fl
  LOS_ID :: int
  CHUNK_ID :: "int option"

text \<open>
  \<^verbatim>\<open>Table.rename_column\<close> raises \<^verbatim>\<open>KeyError\<close> when the old name is missing or the new
  name is taken; the reader catches it and leaves the table as it is.
\<close>

definition rename_column :: "string \<Rightarrow> string \<Rightarrow> ftable \<Rightarrow> error + ftable" where
  "rename_column old new T =
     (if old \<notin> set (colnames T) \<or> new \<in> set (colnames T) then Inl KeyError
      else Inr (map (\<lambda>(n, c). (if n = old then new else n, c)) T))"

definition try_rename :: "ftable \<Rightarrow> string \<times> string \<Rightarrow> ftable" where
  "try_rename T p = (case rename_column (fst p) (snd p) T of Inl _ \<Rightarrow> T | Inr T' \<Rightarrow> T')"

text \<open>The seven canonical column names, each paired with its \<^verbatim>\<open>upper()\<close>.\<close>

definition renamed_columns :: "(string \<times> string) list" where
  "renamed_columns =
     [(''K'', ''k''), (''PK'', ''Pk''), (''PK_RAW'', ''Pk_raw''), (''PK_NOISE'', ''Pk_noise''),
      (''PK_DIFF'', ''Pk_diff''), (''COR_RESO'', ''cor_reso''),
      (''PK_NOISE_MISS'', ''Pk_noise_miss'')]"

definition map3 :: "('a \<Rightarrow> 'b \<Rightarrow> 'c \<Rightarrow> 'd) \<Rightarrow> 'a list \<Rightarrow> 'b list \<Rightarrow> 'c list \<Rightarrow> 'd list" where
  "map3 f xs ys zs = map (\<lambda>(x, y, z). f x y z) (zip xs (zip ys zs))"

text \<open>
  Lines 83 to 86: the clean power is recomputed when the NaN-ignoring sum of the column
  is zero. Reading a column that the table does not have raises \<^verbatim>\<open>KeyError\<close>.
\<close>

definition derive_pk :: "ftable \<Rightarrow> error + ftable" where
  "derive_pk T =
     ebind (getcol T ''Pk'') (\<lambda>pk.
       if feq (nansum pk) (Fin 0) then
         ebind (getcol T ''Pk_raw'') (\<lambda>raw.
         ebind (getcol T ''Pk_noise'') (\<lambda>noise.
         ebind (getcol T ''cor_reso'') (\<lambda>reso.
           Inr (setcol ''Pk'' (map3 (\<lambda>r n c. fdiv (fsub r n) c) raw noise reso) T))))
       else Inr T)"

text \<open>Decimal rendering of the identifiers, for \<^verbatim>\<open>f"{LOS_ID}_{CHUNK_ID}"\<close>.\<close>

fun str_of_nat :: "nat \<Rightarrow> string" where
  "str_of_nat n =
     (if n < 10 then [char_of (48 + n)]
      else str_of_nat (n div 10) @ [char_of (48 + n mod 10)])"

definition str_of_int :: "int \<Rightarrow> string" where
  "str_of_int i = (if i < 0 then CHR ''-'' # str_of_nat (nat (- i)) else str_of_nat (nat i))"

text \<open>
  \<^verbatim>\<open>np.argmin\<close>: the position of the first minimum; a NaN counts as smaller than
  everything, so the first NaN wins.
\<close>

fun argmin_from :: "nat \<Rightarrow> fl \<Rightarrow> nat \<Rightarrow> fl list \<Rightarrow> nat" where
  "argmin_from best bv i [] = best"
| "argmin_from best bv i (x # xs) =
     (if \<not> isnan bv \<and> (isnan x \<or> flt x bv) then argmin_from i x (Suc i) xs
      else argmin_from best bv (Suc i) xs)"

definition argmin :: "fl list \<Rightarrow> error + nat" where
  "argmin xs = (case xs of [] \<Rightarrow> Inl ValueError | x # rest \<Rightarrow> Inr (argmin_from 0 x 1 rest))"

text \<open>
  The quality cut of lines 96 to 107: the threshold of the chunk, or an error.
  \<^verbatim>\<open>snrcut[0]\<close> on an empty array raises \<^verbatim>\<open>IndexError\<close>.
\<close>

definition snrcut_chunk :: "fl list \<Rightarrow> fl list option \<Rightarrow> fl \<Rightarrow> error + fl" where
  "snrcut_chunk snrcut zbins_snrcut meanz =
     (if 1 < length snrcut then
        (case zbins_snrcut of
           None \<Rightarrow> Inl ValueError
         | Some zb \<Rightarrow>
             if length zb \<noteq> length snrcut then Inl ValueError
             else ebind (argmin (map (\<lambda>z. fabs (fsub z meanz)) zb))
                    (\<lambda>zbin_index. Inr (snrcut ! zbin_index)))
      else (case snrcut of [] \<Rightarrow> Inl IndexError | c # _ \<Rightarrow> Inr c))"

text \<open>
  The body of the loop over the HDUs (lines 66 to 120). The result is \<open>None\<close> when the
  chunk is skipped by a \<^verbatim>\<open>continue\<close>, and the chunk table with its redshift otherwise.
\<close>

definition very_noisy :: "ftable \<Rightarrow> fl list \<Rightarrow> error + bool" where
  "very_noisy T kbin_edges =
     (if kbin_edges = [] then Inl IndexError
      else
        ebind (getcol T ''k'') (\<lambda>k.
        ebind (getcol T ''Pk_noise'') (\<lambda>noise.
        ebind (getcol T ''Pk_raw'') (\<lambda>raw.
          let wk = map (\<lambda>x. flt x (last kbin_edges)) k in
          Inr (list_ex (\<lambda>(n, r). fgt n (fmul (Fin 1000000) r))
                 (zip (by_mask noise wk) (by_mask raw wk)))))))"

definition read_pk1d_hdu ::
  "fl list \<Rightarrow> fl list option \<Rightarrow> fl list option \<Rightarrow> hdu \<Rightarrow> error + (p1d_table \<times> fl) option" where
  "read_pk1d_hdu kbin_edges snrcut zbins_snrcut h =
     (let chunk0 = foldl try_rename (data h) renamed_columns in
      ebind (derive_pk chunk0) (\<lambda>chunk1.
        let n = nrows chunk1;
            chunk2 = setcol ''forest_snr'' (replicate n (MEANSNR h))
                       (setcol ''forest_z'' (replicate n (MEANZ h)) chunk1);
            chunk_table = \<lparr> fcols = chunk2,
                            forest_id = replicate n (LOS_ID h),
                            sub_forest_id =
                              (case CHUNK_ID h of None \<Rightarrow> None
                               | Some c \<Rightarrow>
                                   Some (replicate n (str_of_int (LOS_ID h) @ ''_'' @ str_of_int c))) \<rparr>
        in
        ebind (case snrcut of None \<Rightarrow> Inr False
               | Some sc \<Rightarrow> ebind (snrcut_chunk sc zbins_snrcut (MEANZ h))
                              (\<lambda>c. Inr (flt (MEANSNR h) c))) (\<lambda>cut.
          if cut then Inr None
          else
            ebind (very_noisy chunk2 kbin_edges) (\<lambda>noisy.
              if noisy then Inr None else Inr (Some (chunk_table, MEANZ h))))))"

text \<open>
  The loop over the HDUs, then lines 122 to 137: \<open>None\<close> when no chunk was kept, and
  otherwise the stacked table, extended by the derived columns, with the array of chunk
  redshifts. \<^verbatim>\<open>astropy.table.vstack\<close> is a parameter of the model.
\<close>

fun read_hdus ::
  "fl list \<Rightarrow> fl list option \<Rightarrow> fl list option \<Rightarrow> hdu list \<Rightarrow> error + (p1d_table \<times> fl) list" where
  "read_hdus kbin_edges snrcut zbins_snrcut [] = Inr []"
| "read_hdus kbin_edges snrcut zbins_snrcut (h # hs) =
     ebind (read_pk1d_hdu kbin_edges snrcut zbins_snrcut h) (\<lambda>r.
     ebind (read_hdus kbin_edges snrcut zbins_snrcut hs) (\<lambda>rest.
       Inr (case r of None \<Rightarrow> rest | Some c \<Rightarrow> c # rest)))"

definition colwise :: "(fl \<Rightarrow> fl \<Rightarrow> fl) \<Rightarrow> string \<Rightarrow> string \<Rightarrow> ftable \<Rightarrow> error + column" where
  "colwise f a b T = ebind (getcol T a) (\<lambda>x. ebind (getcol T b) (\<lambda>y. Inr (map2 f x y)))"

definition derived_columns :: "ftable \<Rightarrow> error + ftable" where
  "derived_columns T0 =
     ebind (colwise (\<lambda>k p. fdiv (fmul k p) (Fin pi)) ''k'' ''Pk'' T0) (\<lambda>c1.
       let T1 = setcol ''Delta2'' c1 T0 in
     ebind (colwise fsub ''Pk_raw'' ''Pk_noise'' T1) (\<lambda>c2.
       let T2 = setcol ''Pk_norescor'' c2 T1 in
     ebind (colwise fdiv ''Pk_raw'' ''cor_reso'' T2) (\<lambda>c3.
       let T3 = setcol ''Pk_nonoise'' c3 T2 in
     ebind (colwise fdiv ''Pk_noise'' ''cor_reso'' T3) (\<lambda>c4.
       let T4 = setcol ''Pk_noraw'' c4 T3 in
       (case colwise fdiv ''Pk_noise_miss'' ''cor_reso'' T4 of
          Inl _ \<Rightarrow> Inr T4
        | Inr c5 \<Rightarrow> Inr (setcol ''Pk_noraw_miss'' c5 T4))))))"

definition read_pk1d ::
  "(p1d_table list \<Rightarrow> p1d_table) \<Rightarrow> hdu list \<Rightarrow> fl list \<Rightarrow> fl list option \<Rightarrow> fl list option
     \<Rightarrow> error + (p1d_table \<times> fl list) option" where
  "read_pk1d vstack hdus kbin_edges snrcut zbins_snrcut =
     ebind (read_hdus kbin_edges snrcut zbins_snrcut hdus) (\<lambda>kept.
       if kept = [] then Inr None
       else
         let stacked = vstack (map fst kept) in
         ebind (derived_columns (fcols stacked)) (\<lambda>T.
           Inr (Some (stacked\<lparr>fcols := T\<rparr>, map snd kept))))"

section \<open>NumPy and SciPy statistics\<close>

text \<open>
  \<^verbatim>\<open>np.mean\<close>, \<^verbatim>\<open>np.std\<close> (population form, \<^verbatim>\<open>ddof = 0\<close>), \<^verbatim>\<open>np.average\<close> with weights
  (which raises \<^verbatim>\<open>ZeroDivisionError\<close> when the weights sum to zero), \<^verbatim>\<open>np.min\<close>,
  \<^verbatim>\<open>np.max\<close> and \<^verbatim>\<open>np.median\<close> (all three return NaN when the data hold one).
\<close>

definition np_mean :: "fl list \<Rightarrow> fl" where
  "np_mean xs = fdiv (fsum xs) (of_count (length xs))"

definition sq_dev :: "fl list \<Rightarrow> fl" where
  "sq_dev xs = fsum (map (\<lambda>x. fmul (fsub x (np_mean xs)) (fsub x (np_mean xs))) xs)"

definition np_std :: "fl list \<Rightarrow> fl" where
  "np_std xs = fsqrt (fdiv (sq_dev xs) (of_count (length xs)))"

definition np_average :: "fl list \<Rightarrow> fl list \<Rightarrow> error + fl" where
  "np_average xs ws =
     (if length xs \<noteq> length ws then Inl ValueError
      else if feq (fsum ws) (Fin 0) then Inl ZeroDivisionError
      else Inr (fdiv (fsum (map2 fmul xs ws)) (fsum ws)))"

fun fmin2 :: "fl \<Rightarrow> fl \<Rightarrow> fl" where
  "fmin2 a b = (if isnan a \<or> isnan b then NaN else if flt b a then b else a)"

fun fmax2 :: "fl \<Rightarrow> fl \<Rightarrow> fl" where
  "fmax2 a b = (if isnan a \<or> isnan b then NaN else if flt a b then b else a)"

definition np_min :: "fl list \<Rightarrow> error + fl" where
  "np_min xs = (case xs of [] \<Rightarrow> Inl ValueError | x # rest \<Rightarrow> Inr (foldl fmin2 x rest))"

definition np_max :: "fl list \<Rightarrow> error + fl" where
  "np_max xs = (case xs of [] \<Rightarrow> Inl ValueError | x # rest \<Rightarrow> Inr (foldl fmax2 x rest))"

fun finsert :: "fl \<Rightarrow> fl list \<Rightarrow> fl list" where
  "finsert x [] = [x]"
| "finsert x (y # ys) = (if flt y x then y # finsert x ys else x # y # ys)"

definition fsort :: "fl list \<Rightarrow> fl list" where
  "fsort xs = foldr finsert xs []"

definition np_median :: "fl list \<Rightarrow> fl" where
  "np_median xs =
     (if xs = [] \<or> list_ex isnan xs then NaN
      else
        let s = fsort xs; n = length xs in
        if even n then fdiv (fadd (s ! (n div 2 - 1)) (s ! (n div 2))) (Fin 2)
        else s ! (n div 2))"

text \<open>
  \<^verbatim>\<open>scipy.stats.binned_statistic\<close>, as documented: bin \<open>i\<close> is the half-open interval
  from edge \<open>i\<close> to edge \<open>i + 1\<close>, except the last bin, which includes its upper edge.
  The statistic \<^verbatim>\<open>count\<close> gives the number of samples per bin, and \<^verbatim>\<open>std\<close> the
  population standard deviation of the values per bin, NaN for an empty bin. The model
  covers an array of at least two edges.
\<close>

definition in_hist_bin :: "fl list \<Rightarrow> nat \<Rightarrow> fl \<Rightarrow> bool" where
  "in_hist_bin edges i x =
     (fle (edges ! i) x \<and>
      (if Suc i = length edges - 1 then fle x (edges ! Suc i) else flt x (edges ! Suc i)))"

definition binned_count :: "fl list \<Rightarrow> fl list \<Rightarrow> nat list" where
  "binned_count x edges =
     map (\<lambda>i. length (filter (in_hist_bin edges i) x)) [0..<length edges - 1]"

definition binned_std :: "fl list \<Rightarrow> fl list \<Rightarrow> fl list \<Rightarrow> fl list" where
  "binned_std x vals edges =
     map (\<lambda>i. let vs = by_mask vals (map (in_hist_bin edges i) x)
               in if vs = [] then NaN else np_std vs)
       [0..<length edges - 1]"

text \<open>
  \<^verbatim>\<open>np.around(x, 5)\<close>: rounding to five decimals, a tie going to the even neighbour.
\<close>

definition round_half_even :: "real \<Rightarrow> int" where
  "round_half_even x =
     (let f = \<lfloor>x\<rfloor> in
      if x - of_int f < 1 / 2 then f
      else if 1 / 2 < x - of_int f then f + 1
      else if even f then f else f + 1)"

fun np_around5 :: "fl \<Rightarrow> fl" where
  "np_around5 (Fin x) = Fin (of_int (round_half_even (x * 100000)) / 100000)"
| "np_around5 v = v"

text \<open>
  \<^verbatim>\<open>np.allclose(a, b, atol=1e-3)\<close> with the default \<^verbatim>\<open>rtol = 1e-5\<close>: finite entries
  are compared within the tolerance, the others have to be equal.
\<close>

fun np_isclose :: "fl \<Rightarrow> fl \<Rightarrow> bool" where
  "np_isclose (Fin a) (Fin b) = (\<bar>a - b\<bar> \<le> 1 / 1000 + \<bar>b\<bar> / 100000)"
| "np_isclose a b = feq a b"

definition np_allclose :: "fl list \<Rightarrow> fl \<Rightarrow> bool" where
  "np_allclose xs b = list_all (\<lambda>a. np_isclose a b) xs"

section \<open>The weighted bin aggregator: \<^verbatim>\<open>fill_average_pk_redshift\<close>\<close>

text \<open>
  What the module imports from files that are not part of the sources at hand
  (\<^verbatim>\<open>picca.constants\<close>, \<^verbatim>\<open>picca.pk1d.utils\<close>) and SciPy's least-squares fit are
  parameters of the model: the fit returns the two coefficients, or raises, and
  \<open>bootstrap i n b\<close> stands for the \<open>b\<close> random index arrays that
  \<^verbatim>\<open>astropy.stats.bootstrap\<close> draws from \<open>n\<close> indices at its call for redshift bin \<open>i\<close>.
\<close>

record externals =
  LYA :: fl
  SPEED_LIGHT :: fl
  MEANPK_FITRANGE_SNR :: "int \<times> int"
  fitfunc_variance_pk1d :: "fl \<Rightarrow> fl \<Rightarrow> fl \<Rightarrow> fl"
  curve_fit :: "fl list \<Rightarrow> fl list \<Rightarrow> error + (fl \<times> fl)"
  bootstrap :: "nat \<Rightarrow> nat \<Rightarrow> nat \<Rightarrow> nat list list"

text \<open>
  The output table: the three columns of the bin identity and the count, and one float
  column \<^verbatim>\<open>stats + col\<close> per statistic and input column. The table of fit results
  exists exactly when \<^verbatim>\<open>output_snrfit\<close> is given.
\<close>

record mean_table =
  zbin :: "fl list"
  index_zbin :: "int list"
  N :: "int list"
  stats :: ftable

record agg_state =
  mean_p1d_table :: mean_table
  snrfit_table :: "fl list list option"

record agg_args =
  p1d :: p1d_table
  p1d_table_cols :: "string list"
  weight_method :: string
  apply_z_weights :: bool
  nomedians :: bool
  nbins_z :: nat
  zbin_centers :: "fl list"
  zbin_edges :: "fl list"
  n_chunks :: "nat list"
  nbins_k :: nat
  kbin_edges :: "fl list"

text \<open>Item and slice assignment. An index past the end raises; a slice is clipped.\<close>

definition put_at :: "nat \<Rightarrow> 'a \<Rightarrow> 'a list \<Rightarrow> error + 'a list" where
  "put_at i v xs = (if i < length xs then Inr (xs[i := v]) else Inl IndexError)"

definition put_slice :: "nat \<Rightarrow> nat \<Rightarrow> 'a \<Rightarrow> 'a list \<Rightarrow> 'a list" where
  "put_slice lo hi v xs = map (\<lambda>j. if lo \<le> j \<and> j < hi then v else xs ! j) [0..<length xs]"

definition put_stat :: "string \<Rightarrow> nat \<Rightarrow> fl \<Rightarrow> ftable \<Rightarrow> error + ftable" where
  "put_stat name i v S =
     ebind (getcol S name) (\<lambda>c. ebind (put_at i v c) (\<lambda>c'. Inr (setcol name c' S)))"

fun efold :: "('a \<Rightarrow> 's \<Rightarrow> error + 's) \<Rightarrow> 'a list \<Rightarrow> 's \<Rightarrow> error + 's" where
  "efold f [] s = Inr s"
| "efold f (x # xs) s = ebind (f x s) (efold f xs)"

text \<open>
  Bin membership as the code tests it (lines 549 to 554, 525 to 541, 283 to 285 and
  336 to 338): below the upper edge and above the lower edge, both strictly.
\<close>

definition in_open_bin :: "fl list \<Rightarrow> nat \<Rightarrow> fl \<Rightarrow> bool" where
  "in_open_bin edges i x = (flt x (edges ! Suc i) \<and> fgt x (edges ! i))"

definition select_zk :: "fl list \<Rightarrow> fl list \<Rightarrow> column \<Rightarrow> column \<Rightarrow> nat \<Rightarrow> nat \<Rightarrow> bool list" where
  "select_zk zedges kedges forest_z k izbin ikbin =
     map2 (\<lambda>z kk. in_open_bin zedges izbin z \<and> in_open_bin kedges ikbin kk) forest_z k"

definition select_zweights ::
  "agg_args \<Rightarrow> column \<Rightarrow> column \<Rightarrow> nat \<Rightarrow> nat \<Rightarrow> bool list" where
  "select_zweights a forest_z k izbin ikbin =
     map2 (\<lambda>z kk. in_open_bin (kbin_edges a) ikbin kk \<and>
             (if izbin = 0 \<or> Suc izbin = nbins_z a then
                fgt z (zbin_edges a ! izbin) \<and> flt z (zbin_edges a ! Suc izbin)
              else flt z (zbin_centers a ! Suc izbin) \<and> fgt z (zbin_centers a ! (izbin - 1))))
       forest_z k"

text \<open>
  Lines 518 to 523: the spacing of the bin centres, checked to be uniform.
  \<^verbatim>\<open>delta_z[0]\<close> raises \<^verbatim>\<open>IndexError\<close> when there is a single redshift bin.
\<close>

definition uniform_delta_z :: "fl list \<Rightarrow> error + fl" where
  "uniform_delta_z centers =
     (let delta_z = map2 fsub (tl centers) (butlast centers) in
      case delta_z of
        [] \<Rightarrow> Inl IndexError
      | d # _ \<Rightarrow> if \<not> np_allclose delta_z d then Inl ValueError else Inr d)"

definition redshift_weights_of :: "column \<Rightarrow> fl \<Rightarrow> fl \<Rightarrow> fl list" where
  "redshift_weights_of zsel center delta_z =
     map (\<lambda>z. fsub (Fin 1) (fdiv (fabs (fsub z center)) delta_z)) zsel"

text \<open>In-place \<^verbatim>\<open>weights *= redshift_weights\<close>, with NumPy's broadcasting.\<close>

definition imul :: "fl list \<Rightarrow> fl list \<Rightarrow> error + fl list" where
  "imul ws rw =
     (if length rw = length ws then Inr (map2 fmul ws rw)
      else if length rw = 1 then Inr (map (\<lambda>w. fmul w (hd rw)) ws)
      else Inl ValueError)"

definition snr_bin_edges :: "externals \<Rightarrow> fl list" where
  "snr_bin_edges ext =
     map of_integer [fst (MEANPK_FITRANGE_SNR ext) .. snd (MEANPK_FITRANGE_SNR ext)]"

definition snr_bins :: "externals \<Rightarrow> fl list" where
  "snr_bins ext =
     map2 (\<lambda>a b. fdiv (fadd a b) (Fin 2)) (butlast (snr_bin_edges ext)) (tl (snr_bin_edges ext))"

definition clamp_snr :: "externals \<Rightarrow> fl \<Rightarrow> fl" where
  "clamp_snr ext s =
     (let hi = of_integer (snd (MEANPK_FITRANGE_SNR ext));
          s1 = (if fgt s hi then hi else s)
      in if flt s1 (Fin (101 / 100)) then Fin (101 / 100) else s1)"

definition sel_col :: "ftable \<Rightarrow> string \<Rightarrow> bool list \<Rightarrow> error + column" where
  "sel_col T col sel = ebind (getcol T col) (\<lambda>c. Inr (by_mask c sel))"

text \<open>
  The three weighting branches (lines 580 to 661). Each returns the mean and the error of
  one column over the members of the cell; the first also returns the fit coefficients
  and the binned standard deviations.
\<close>

definition fit_snr_stats ::
  "externals \<Rightarrow> bool \<Rightarrow> fl list \<Rightarrow> column \<Rightarrow> column
     \<Rightarrow> error + (fl \<times> fl \<times> (fl \<times> fl) \<times> fl list)" where
  "fit_snr_stats ext zw redshift_weights vals snr =
     (let nanmask = map isnan vals;
          data_snr = (if list_ex id nanmask then by_mask snr (map Not nanmask) else snr);
          data_values = (if list_ex id nanmask then by_mask vals (map Not nanmask) else vals);
          standard_dev = binned_std data_snr data_values (snr_bin_edges ext)
      in
      ebind (curve_fit ext (snr_bins ext) (map (\<lambda>s. fmul s s) standard_dev)) (\<lambda>coef.
        let variance_estimated =
              map (\<lambda>s. fitfunc_variance_pk1d ext (clamp_snr ext s) (fst coef) (snd coef)) data_snr;
            weights0 = map (fdiv (Fin 1)) variance_estimated
        in
        ebind (if zw then imul weights0 redshift_weights else Inr weights0) (\<lambda>weights.
        ebind (np_average data_values weights) (\<lambda>mean.
        ebind (if zw then
                 ebind (imul weights redshift_weights) (\<lambda>wr.
                   Inr (fdiv (fsqrt (fsum wr)) (fsum weights)))
               else Inr (fsqrt (fdiv (Fin 1) (fsum weights)))) (\<lambda>err.
          Inr (mean, err, coef, standard_dev))))))"

definition simple_snr_stats ::
  "ftable \<Rightarrow> string \<Rightarrow> bool list \<Rightarrow> column \<Rightarrow> nat \<Rightarrow> error + (fl \<times> fl)" where
  "simple_snr_stats T col sel forest_snr num_chunks =
     (if list_ex (\<lambda>s. fle s (Fin 1)) forest_snr then Inl RuntimeError
      else
        let weights = map (\<lambda>s. if fgt s (Fin 4) then Fin 9
                                else fmul (fsub s (Fin 1)) (fsub s (Fin 1))) forest_snr
        in
        ebind (sel_col T col sel) (\<lambda>vals.
        ebind (np_average vals weights) (\<lambda>mean.
          let alpha = fsum (map2 (\<lambda>w x. fmul w (fmul (fsub x mean) (fsub x mean))) weights vals)
          in Inr (mean,
                  fsqrt (fdiv alpha (fmul (fsum weights) (of_integer (int num_chunks - 1))))))))"

definition no_weights_stats :: "bool \<Rightarrow> fl list \<Rightarrow> column \<Rightarrow> nat \<Rightarrow> error + (fl \<times> fl)" where
  "no_weights_stats zw redshift_weights vals num_chunks =
     (if zw then
        ebind (np_average vals redshift_weights) (\<lambda>mean.
          Inr (mean,
               fmul (np_std vals)
                 (fdiv (fsqrt (fsum (map (\<lambda>w. fmul w w) redshift_weights)))
                    (fsum redshift_weights))))
      else Inr (np_mean vals, fdiv (np_std vals) (fsqrt (of_integer (int num_chunks - 1)))))"

text \<open>
  Lines 623 to 630: the row of the fit table. The table is created with thirteen
  columns, so the nine trailing slots take nine binned values, or one that is broadcast.
\<close>

definition write_snrfit ::
  "nat \<Rightarrow> fl \<Rightarrow> fl \<Rightarrow> fl \<times> fl \<Rightarrow> fl list \<Rightarrow> fl list list \<Rightarrow> error + fl list list" where
  "write_snrfit index zc kc coef standard_dev tab =
     (if \<not> index < length tab then Inl IndexError
      else if length standard_dev = 9 then
        Inr (tab[index := [zc, kc, fst coef, snd coef] @ standard_dev])
      else if length standard_dev = 1 then
        Inr (tab[index := [zc, kc, fst coef, snd coef] @ replicate 9 (hd standard_dev)])
      else Inl ValueError)"

text \<open>
  The weighting step of one column (lines 580 to 664): the mean, the error and the fit
  table. The columns are read in the order of the code, and an unknown method raises
  before any column is read.
\<close>

definition weighted_stats ::
  "externals \<Rightarrow> agg_args \<Rightarrow> bool list \<Rightarrow> fl list \<Rightarrow> nat \<Rightarrow> nat \<Rightarrow> nat \<Rightarrow> nat \<Rightarrow> string
     \<Rightarrow> fl list list option \<Rightarrow> error + (fl \<times> fl \<times> fl list list option)" where
  "weighted_stats ext a sel redshift_weights num_chunks izbin ikbin index col snrfit =
     (let T = fcols (p1d a) in
      if weight_method a = ''fit_snr'' then
        ebind (sel_col T col sel) (\<lambda>vals.
        ebind (sel_col T ''forest_snr'' sel) (\<lambda>snr.
        ebind (fit_snr_stats ext (apply_z_weights a) redshift_weights vals snr) (\<lambda>r.
          case r of (mean, err, coef, standard_dev) \<Rightarrow>
            (case snrfit of
               Some tab \<Rightarrow>
                 if col = ''Pk'' then
                   ebind (write_snrfit index (zbin_centers a ! izbin)
                            (fdiv (fadd (kbin_edges a ! ikbin) (kbin_edges a ! Suc ikbin)) (Fin 2))
                            coef standard_dev tab)
                     (\<lambda>tab'. Inr (mean, err, Some tab'))
                 else Inr (mean, err, snrfit)
             | None \<Rightarrow> Inr (mean, err, snrfit)))))
      else if weight_method a = ''simple_snr'' then
        ebind (sel_col T ''forest_snr'' sel) (\<lambda>snr.
        ebind (simple_snr_stats T col sel snr num_chunks) (\<lambda>r.
          Inr (fst r, snd r, snrfit)))
      else if weight_method a = ''no_weights'' then
        ebind (sel_col T col sel) (\<lambda>vals.
        ebind (no_weights_stats (apply_z_weights a) redshift_weights vals num_chunks) (\<lambda>r.
          Inr (fst r, snd r, snrfit)))
      else Inl ValueError)"

text \<open>Lines 669 to 675: the five statistics of one column, written to the row of the cell.\<close>

definition put_stats ::
  "bool \<Rightarrow> nat \<Rightarrow> string \<Rightarrow> fl \<Rightarrow> fl \<Rightarrow> fl \<Rightarrow> fl \<Rightarrow> fl \<Rightarrow> ftable \<Rightarrow> error + ftable" where
  "put_stats nomed index col mean err minimum maximum median S =
     ebind (put_stat (''mean'' @ col) index mean S) (\<lambda>S1.
     ebind (put_stat (''error'' @ col) index err S1) (\<lambda>S2.
     ebind (put_stat (''min'' @ col) index minimum S2) (\<lambda>S3.
     ebind (put_stat (''max'' @ col) index maximum S3) (\<lambda>S4.
       if \<not> nomed then put_stat (''median'' @ col) index median S4 else Inr S4))))"

text \<open>
  The body of the loop over the columns (lines 565 to 675). An empty cell is left as it
  is, for every column.
\<close>

definition fill_column ::
  "externals \<Rightarrow> agg_args \<Rightarrow> bool list \<Rightarrow> fl list \<Rightarrow> nat \<Rightarrow> nat \<Rightarrow> nat \<Rightarrow> nat \<Rightarrow> string
     \<Rightarrow> agg_state \<Rightarrow> error + agg_state" where
  "fill_column ext a sel redshift_weights num_chunks izbin ikbin index col st =
     (if num_chunks = 0 then Inr st
      else
        ebind (weighted_stats ext a sel redshift_weights num_chunks izbin ikbin index col
                 (snrfit_table st)) (\<lambda>r.
        ebind (sel_col (fcols (p1d a)) col sel) (\<lambda>vals.
        ebind (np_min vals) (\<lambda>minimum.
        ebind (np_max vals) (\<lambda>maximum.
        ebind (put_stats (nomedians a) index col (fst r) (fst (snd r)) minimum maximum
                 (np_median vals) (stats (mean_p1d_table st))) (\<lambda>S.
          Inr \<lparr> mean_p1d_table = (mean_p1d_table st)\<lparr>stats := S\<rparr>,
                snrfit_table = snd (snd r) \<rparr>))))))"

text \<open>The selection of the members of a cell, with the redshift weights when they apply.\<close>

definition cell_selection :: "agg_args \<Rightarrow> nat \<Rightarrow> nat \<Rightarrow> error + (bool list \<times> fl list)" where
  "cell_selection a izbin ikbin =
     (let T = fcols (p1d a) in
      if apply_z_weights a then
        ebind (uniform_delta_z (zbin_centers a)) (\<lambda>delta_z.
        ebind (getcol T ''k'') (\<lambda>k.
        ebind (getcol T ''forest_z'') (\<lambda>z.
          let sel = select_zweights a z k izbin ikbin in
          Inr (sel, redshift_weights_of (by_mask z sel) (zbin_centers a ! izbin) delta_z))))
      else
        ebind (getcol T ''forest_z'') (\<lambda>z.
        ebind (getcol T ''k'') (\<lambda>k.
          Inr (select_zk (zbin_edges a) (kbin_edges a) z k izbin ikbin, []))))"

text \<open>The body of the loop over the wavenumber bins (lines 515 to 675).\<close>

definition fill_cell :: "externals \<Rightarrow> agg_args \<Rightarrow> nat \<Rightarrow> nat \<Rightarrow> agg_state \<Rightarrow> error + agg_state" where
  "fill_cell ext a izbin ikbin st =
     ebind (cell_selection a izbin ikbin) (\<lambda>sw.
       let sel = fst sw; redshift_weights = snd sw;
           index = nbins_k a * izbin + ikbin;
           M = mean_p1d_table st
       in
       ebind (put_at index (zbin_centers a ! izbin) (zbin M)) (\<lambda>zb.
       ebind (put_at index (int izbin) (index_zbin M)) (\<lambda>iz.
       ebind (getcol (fcols (p1d a)) ''k'') (\<lambda>k.
         let num_chunks = length (by_mask k sel) in
         ebind (put_at index (int num_chunks) (N M)) (\<lambda>n.
           efold (fill_column ext a sel redshift_weights num_chunks izbin ikbin index)
             (p1d_table_cols a)
             (st\<lparr>mean_p1d_table := M\<lparr>zbin := zb, index_zbin := iz, N := n\<rparr>\<rparr>))))))"

text \<open>
  \<^verbatim>\<open>fill_average_pk_redshift\<close> for one redshift bin, called with \<open>izbin < nbins_z\<close> by the
  loop of \<^verbatim>\<open>compute_mean_pk1d\<close>. A redshift bin without chunks gets its identity and
  nothing else.
\<close>

definition fill_average_pk_redshift ::
  "externals \<Rightarrow> agg_args \<Rightarrow> nat \<Rightarrow> agg_state \<Rightarrow> error + agg_state" where
  "fill_average_pk_redshift ext a izbin st =
     (if n_chunks a ! izbin = 0 then
        let M = mean_p1d_table st;
            i_min = izbin * nbins_k a;
            i_max = (izbin + 1) * nbins_k a
        in Inr (st\<lparr>mean_p1d_table :=
                   M\<lparr>zbin := put_slice i_min i_max (zbin_centers a ! izbin) (zbin M),
                     index_zbin := put_slice i_min i_max (int izbin) (index_zbin M)\<rparr>\<rparr>)
      else efold (fill_cell ext a izbin) [0..<length (kbin_edges a) - 1] st)"

section \<open>The covariance estimator: \<^verbatim>\<open>compute_cov\<close>\<close>

text \<open>
  NumPy item access with an integer that may be negative: it counts from the end, and
  raises \<^verbatim>\<open>IndexError\<close> outside of the array.
\<close>

definition py_index :: "nat \<Rightarrow> int \<Rightarrow> error + nat" where
  "py_index n i =
     (if 0 \<le> i \<and> i < int n then Inr (nat i)
      else if - int n \<le> i \<and> i < 0 then Inr (nat (int n + i))
      else Inl IndexError)"

record cov_block =
  zbin_array :: "fl list"
  index_zbin_array :: "int list"
  n_array :: "int list"
  covariance_array :: "fl list"

text \<open>
  The first loop (lines 748 to 766). For one sub-forest, every sample is paired with
  itself and with each later sample; a pair whose two wavenumber indices are set adds
  its product to the cell of the two indices, in that order.
\<close>

definition acc_pair ::
  "nat \<Rightarrow> int \<times> fl \<Rightarrow> int \<times> fl \<Rightarrow> cov_block \<Rightarrow> error + cov_block" where
  "acc_pair K p q s =
     (if fst q \<noteq> - 1 then
        ebind (py_index (length (covariance_array s)) (int K * fst p + fst q)) (\<lambda>ic.
        ebind (py_index (length (n_array s)) (int K * fst p + fst q)) (\<lambda>ni.
          Inr (s\<lparr>covariance_array :=
                   (covariance_array s)[ic := fadd (covariance_array s ! ic) (fmul (snd p) (snd q))],
                 n_array := (n_array s)[ni := n_array s ! ni + 1]\<rparr>)))
      else Inr s)"

fun acc_group :: "nat \<Rightarrow> (int \<times> fl) list \<Rightarrow> cov_block \<Rightarrow> error + cov_block" where
  "acc_group K [] s = Inr s"
| "acc_group K (p # rest) s =
     ebind (if fst p \<noteq> - 1 then efold (acc_pair K p) (p # rest) s else Inr s)
       (acc_group K rest)"

definition acc_sub_forest ::
  "p1d_table \<Rightarrow> int list \<Rightarrow> nat \<Rightarrow> bool list \<Rightarrow> string \<Rightarrow> cov_block \<Rightarrow> error + cov_block" where
  "acc_sub_forest T k_index K select_z sub_id s =
     (case sub_forest_id T of
        None \<Rightarrow> Inl KeyError
      | Some ids \<Rightarrow>
          let select_id = map2 (\<lambda>b i. b \<and> i = sub_id) select_z ids in
          ebind (sel_col (fcols T) ''Pk'' select_id) (\<lambda>selected_pk.
            acc_group K (zip (by_mask k_index select_id) selected_pk) s))"

text \<open>
  The second loop (lines 768 to 790): each cell of the upper triangle is normalised from
  its own accumulated sum and count, and copied to its mirror cell. The arrays have
  \<open>nbins_k * nbins_k\<close> entries, so every index of this loop is in range.
\<close>

definition mean_at :: "mean_table \<Rightarrow> nat \<Rightarrow> error + fl" where
  "mean_at M i =
     ebind (getcol (stats M) ''meanPk'') (\<lambda>c. if i < length c then Inr (c ! i) else Inl IndexError)"

definition cov_formula :: "fl \<Rightarrow> int \<Rightarrow> fl \<Rightarrow> fl \<Rightarrow> fl" where
  "cov_formula acc n mean_ikbin mean_ikbin2 =
     fdiv (fsub (fdiv acc (of_integer n)) (fmul mean_ikbin mean_ikbin2)) (of_integer n)"

definition norm_cell ::
  "mean_table \<Rightarrow> fl list \<Rightarrow> nat \<Rightarrow> nat \<Rightarrow> nat \<Rightarrow> fl \<Rightarrow> nat \<Rightarrow> cov_block \<Rightarrow> error + cov_block" where
  "norm_cell M centers K izbin ikbin mean_ikbin ikbin2 s =
     ebind (mean_at M (K * izbin + ikbin2)) (\<lambda>mean_ikbin2.
       let index = K * ikbin + ikbin2;
           c = cov_formula (covariance_array s ! index) (n_array s ! index) mean_ikbin mean_ikbin2;
           s1 = s\<lparr>covariance_array := (covariance_array s)[index := c],
                  zbin_array := (zbin_array s)[index := centers ! izbin],
                  index_zbin_array := (index_zbin_array s)[index := int izbin]\<rparr>
       in
       if ikbin2 \<noteq> ikbin then
         let index_2 = K * ikbin2 + ikbin in
         Inr (s1\<lparr>covariance_array := (covariance_array s1)[index_2 := covariance_array s1 ! index],
                 n_array := (n_array s1)[index_2 := n_array s1 ! index],
                 zbin_array := (zbin_array s1)[index_2 := centers ! izbin],
                 index_zbin_array := (index_zbin_array s1)[index_2 := int izbin]\<rparr>)
       else Inr s1)"

definition norm_row ::
  "mean_table \<Rightarrow> fl list \<Rightarrow> nat \<Rightarrow> nat \<Rightarrow> nat \<Rightarrow> cov_block \<Rightarrow> error + cov_block" where
  "norm_row M centers K izbin ikbin s =
     ebind (mean_at M (K * izbin + ikbin)) (\<lambda>mean_ikbin.
       efold (norm_cell M centers K izbin ikbin mean_ikbin) [ikbin..<K] s)"

definition compute_cov ::
  "p1d_table \<Rightarrow> mean_table \<Rightarrow> fl list \<Rightarrow> nat list \<Rightarrow> int list \<Rightarrow> nat \<Rightarrow> nat \<Rightarrow> bool list
     \<Rightarrow> string list \<Rightarrow> error + cov_block" where
  "compute_cov T M centers nchunks k_index K izbin select_z sub_forest_ids =
     (if nchunks ! izbin = 0 then
        Inr \<lparr> zbin_array = replicate (K * K) (centers ! izbin),
              index_zbin_array = replicate (K * K) (int izbin),
              n_array = replicate (K * K) 0,
              covariance_array = replicate (K * K) NaN \<rparr>
      else
        ebind (efold (acc_sub_forest T k_index K select_z) sub_forest_ids
                 \<lparr> zbin_array = replicate (K * K) (Fin 0),
                   index_zbin_array = replicate (K * K) 0,
                   n_array = replicate (K * K) 0,
                   covariance_array = replicate (K * K) (Fin 0) \<rparr>)
          (efold (norm_row M centers K izbin) [0..<K]))"

section \<open>The run: \<^verbatim>\<open>compute_mean_pk1d\<close>\<close>

record options =
  opt_weight_method :: string
  opt_apply_z_weights :: bool
  opt_nomedians :: bool
  opt_velunits :: bool
  opt_output_snrfit :: bool
  opt_compute_covariance :: bool
  opt_compute_bootstrap :: bool
  opt_number_bootstrap :: nat

record metadata_table =
  z_min :: "fl list"
  z_max :: "fl list"
  k_min :: "fl list"
  k_max :: "fl list"
  N_chunks :: "nat list"

record cov_table =
  cov_zbin :: "fl list"
  cov_index_zbin :: "int list"
  cov_N :: "int list"
  covariance :: "fl list"
  boot_covariance :: "fl list option"
  error_boot_covariance :: "fl list option"

record outputs =
  out_p1d_table :: p1d_table
  out_mean_p1d_table :: mean_table
  out_metadata_table :: metadata_table
  out_cov_table :: "cov_table option"
  out_snrfit_table :: "fl list list option"

text \<open>The Python test \<^verbatim>\<open>pat in s\<close> on strings.\<close>

fun has_substring :: "string \<Rightarrow> string \<Rightarrow> bool" where
  "has_substring pat [] = (pat = [])"
| "has_substring pat (c # cs) = (take (length pat) (c # cs) = pat \<or> has_substring pat cs)"

text \<open>
  Lines 214 to 221: the conversion to velocity units, in place. The factor is computed
  once, from the redshift of each row.
\<close>

definition conversion_factor :: "externals \<Rightarrow> column \<Rightarrow> fl list" where
  "conversion_factor ext forest_z =
     map (\<lambda>z. fdiv (fmul (LYA ext) (fadd (Fin 1) z)) (SPEED_LIGHT ext)) forest_z"

definition rescale_pk :: "fl list \<Rightarrow> string \<Rightarrow> ftable \<Rightarrow> error + ftable" where
  "rescale_pk factor col T =
     (if has_substring ''Pk'' col then
        ebind (getcol T col) (\<lambda>c. Inr (setcol col (map2 fdiv c factor) T))
      else Inr T)"

definition velunits_convert :: "externals \<Rightarrow> string list \<Rightarrow> ftable \<Rightarrow> error + ftable" where
  "velunits_convert ext cols T =
     ebind (getcol T ''forest_z'') (\<lambda>z.
     ebind (getcol T ''k'') (\<lambda>k.
       efold (rescale_pk (conversion_factor ext z)) cols
         (setcol ''k'' (map2 fmul k (conversion_factor ext z)) T)))"

text \<open>Lines 204 to 231: the statistics, and the empty output table, filled with NaN.\<close>

definition stats_array :: "bool \<Rightarrow> string list" where
  "stats_array nomed =
     [''mean'', ''error'', ''min'', ''max''] @ (if \<not> nomed then [''median''] else [])"

definition init_mean_table :: "nat \<Rightarrow> string list \<Rightarrow> bool \<Rightarrow> mean_table" where
  "init_mean_table n cols nomed =
     \<lparr> zbin = replicate n (Fin 0),
       index_zbin = replicate n 0,
       N = replicate n 0,
       stats = foldl (\<lambda>S name. setcol name (replicate n NaN) S) []
                 (concat (map (\<lambda>col. map (\<lambda>st. st @ col) (stats_array nomed)) cols)) \<rparr>"

text \<open>
  Lines 281 to 286: the wavenumber bin of each row for the covariance, \<open>-1\<close> when the
  row is in no bin.
\<close>

definition assign_k_index :: "fl list \<Rightarrow> column \<Rightarrow> int list" where
  "assign_k_index kedges k =
     foldl (\<lambda>k_index ikbin.
              map2 (\<lambda>kk old. if in_open_bin kedges ikbin kk then int ikbin else old) k k_index)
       (replicate (length k) (- 1)) [0..<length kedges - 1]"

definition zbin_centers_of :: "fl list \<Rightarrow> fl list" where
  "zbin_centers_of zedges =
     map np_around5 (map2 (\<lambda>a b. fdiv (fadd a b) (Fin 2)) (tl zedges) (butlast zedges))"

definition put_block :: "nat \<Rightarrow> 'a list \<Rightarrow> 'a list \<Rightarrow> 'a list" where
  "put_block i_min block xs = take i_min xs @ block @ drop (i_min + length block) xs"

text \<open>The sorted distinct values of \<^verbatim>\<open>np.unique\<close>.\<close>

definition np_unique :: "string list \<Rightarrow> string list" where
  "np_unique xs = sort (remdups xs)"

definition select_z_of :: "fl list \<Rightarrow> column \<Rightarrow> nat \<Rightarrow> bool list" where
  "select_z_of zedges forest_z izbin = map (in_open_bin zedges izbin) forest_z"

text \<open>Lines 335 to 366: one covariance block per redshift bin, written to its rows.\<close>

definition cov_zbin_step ::
  "p1d_table \<Rightarrow> mean_table \<Rightarrow> fl list \<Rightarrow> nat list \<Rightarrow> int list \<Rightarrow> nat \<Rightarrow> fl list \<Rightarrow> nat
     \<Rightarrow> cov_table \<Rightarrow> error + cov_table" where
  "cov_zbin_step T M centers nchunks k_index K zedges izbin C =
     ebind (getcol (fcols T) ''forest_z'') (\<lambda>z.
       let select_z = select_z_of zedges z izbin in
       (case sub_forest_id T of
          None \<Rightarrow> Inl KeyError
        | Some ids \<Rightarrow>
            ebind (compute_cov T M centers nchunks k_index K izbin select_z
                     (np_unique (by_mask ids select_z))) (\<lambda>b.
              let i_min = izbin * K * K in
              Inr (C\<lparr>cov_zbin := put_block i_min (zbin_array b) (cov_zbin C),
                     cov_index_zbin := put_block i_min (index_zbin_array b) (cov_index_zbin C),
                     cov_N := put_block i_min (n_array b) (cov_N C),
                     covariance := put_block i_min (covariance_array b) (covariance C)\<rparr>))))"

text \<open>
  Lines 368 to 414: the covariance of each resampling of the sub-forests of a redshift
  bin, then the mean and the standard deviation of the resampled covariances, cell by
  cell.
\<close>

fun emap :: "('a \<Rightarrow> error + 'b) \<Rightarrow> 'a list \<Rightarrow> error + 'b list" where
  "emap f [] = Inr []"
| "emap f (x # xs) = ebind (f x) (\<lambda>y. ebind (emap f xs) (\<lambda>ys. Inr (y # ys)))"

definition boot_zbin_step ::
  "externals \<Rightarrow> nat \<Rightarrow> p1d_table \<Rightarrow> mean_table \<Rightarrow> fl list \<Rightarrow> nat list \<Rightarrow> int list \<Rightarrow> nat
     \<Rightarrow> fl list \<Rightarrow> nat \<Rightarrow> cov_table \<Rightarrow> error + cov_table" where
  "boot_zbin_step ext B T M centers nchunks k_index K zedges izbin C =
     ebind (getcol (fcols T) ''forest_z'') (\<lambda>z.
       let select_z = select_z_of zedges z izbin in
       (case sub_forest_id T of
          None \<Rightarrow> Inl KeyError
        | Some ids \<Rightarrow>
            let sub_forest_ids = np_unique (by_mask ids select_z);
                bootid = take B (bootstrap ext izbin (length sub_forest_ids) B)
            in
            ebind (emap (\<lambda>draw. compute_cov T M centers nchunks k_index K izbin select_z
                                   (map (\<lambda>i. sub_forest_ids ! i) draw)) bootid) (\<lambda>blocks.
              let boot_cov = map covariance_array blocks;
                  i_min = izbin * K * K;
                  cell = (\<lambda>j. map (\<lambda>arr. arr ! j) boot_cov)
              in
              Inr (C\<lparr>boot_covariance :=
                       map_option (put_block i_min (map (\<lambda>j. np_mean (cell j)) [0..<K * K]))
                         (boot_covariance C),
                     error_boot_covariance :=
                       map_option (put_block i_min (map (\<lambda>j. np_std (cell j)) [0..<K * K]))
                         (error_boot_covariance C)\<rparr>))))"

definition init_cov_table :: "nat \<Rightarrow> bool \<Rightarrow> cov_table" where
  "init_cov_table n boot =
     \<lparr> cov_zbin = replicate n (Fin 0),
       cov_index_zbin = replicate n 0,
       cov_N = replicate n 0,
       covariance = replicate n (Fin 0),
       boot_covariance = (if boot then Some (replicate n (Fin 0)) else None),
       error_boot_covariance = (if boot then Some (replicate n (Fin 0)) else None) \<rparr>"

text \<open>
  \<^verbatim>\<open>compute_mean_pk1d\<close>, with the redshift bins processed in order, as for
  \<^verbatim>\<open>number_worker == 1\<close>. The input table is changed in place by the unit conversion, so
  it is part of the result. \<^verbatim>\<open>np.zeros\<close> and \<^verbatim>\<open>np.ones\<close> raise \<^verbatim>\<open>ValueError\<close> on a
  negative size, \<^verbatim>\<open>kbin_edges[0]\<close> raises \<^verbatim>\<open>IndexError\<close> on an empty array. The covariance
  is computed only when the table has the \<^verbatim>\<open>sub_forest_id\<close> column, the method is
  \<^verbatim>\<open>no_weights\<close> and the redshift weights are off.
\<close>

definition agg_args_of ::
  "options \<Rightarrow> p1d_table \<Rightarrow> string list \<Rightarrow> fl list \<Rightarrow> fl list \<Rightarrow> fl list \<Rightarrow> agg_args" where
  "agg_args_of opts T cols z_array zedges kedges =
     \<lparr> p1d = T, p1d_table_cols = cols,
       weight_method = opt_weight_method opts,
       apply_z_weights = opt_apply_z_weights opts,
       nomedians = opt_nomedians opts,
       nbins_z = length zedges - 1,
       zbin_centers = zbin_centers_of zedges,
       zbin_edges = zedges,
       n_chunks = binned_count z_array zedges,
       nbins_k = length kedges - 1,
       kbin_edges = kedges \<rparr>"

definition initial_state :: "options \<Rightarrow> string list \<Rightarrow> nat \<Rightarrow> agg_state" where
  "initial_state opts cols n =
     \<lparr> mean_p1d_table = init_mean_table n cols (opt_nomedians opts),
       snrfit_table =
         (if opt_output_snrfit opts then Some (replicate n (replicate 13 (Fin 0))) else None) \<rparr>"

definition with_cov :: "options \<Rightarrow> p1d_table \<Rightarrow> bool" where
  "with_cov opts T =
     ((opt_compute_covariance opts \<or> opt_compute_bootstrap opts)
      \<and> sub_forest_id T \<noteq> None
      \<and> opt_weight_method opts = ''no_weights''
      \<and> \<not> opt_apply_z_weights opts)"

text \<open>
  Lines 223 to 426, after the unit conversion: the empty tables, the loop over the
  redshift bins (lines 306 to 330), the covariance and the resampled covariance.
\<close>

definition mean_pk1d_grid ::
  "externals \<Rightarrow> options \<Rightarrow> p1d_table \<Rightarrow> string list \<Rightarrow> fl list \<Rightarrow> fl list \<Rightarrow> fl list
     \<Rightarrow> error + outputs" where
  "mean_pk1d_grid ext opts T cols z_array zedges kedges =
     (if (int (length zedges) - 1) * (int (length kedges) - 1) < 0 then Inl ValueError
      else if kedges = [] then Inl IndexError
      else if int (length zedges) - 1 < 0 then Inl ValueError
      else
        let nbz = length zedges - 1;
            nbk = length kedges - 1;
            args = agg_args_of opts T cols z_array zedges kedges;
            metadata = \<lparr> z_min = butlast zedges, z_max = tl zedges,
                         k_min = replicate nbz (hd kedges),
                         k_max = replicate nbz (last kedges),
                         N_chunks = n_chunks args \<rparr>;
            cc = (opt_compute_covariance opts \<and> with_cov opts T);
            cb = (opt_compute_bootstrap opts \<and> with_cov opts T);
            C0 = init_cov_table (nbz * nbk * nbk) (opt_compute_bootstrap opts)
        in
        ebind (if with_cov opts T
               then ebind (getcol (fcols T) ''k'') (\<lambda>k. Inr (assign_k_index kedges k))
               else Inr []) (\<lambda>k_index.
        ebind (efold (fill_average_pk_redshift ext args) [0..<length zedges - 1]
                 (initial_state opts cols (nbz * nbk))) (\<lambda>st.
        ebind (if cc then
                 efold (cov_zbin_step T (mean_p1d_table st) (zbin_centers args) (n_chunks args)
                          k_index nbk zedges)
                   [0..<nbz] C0
               else Inr C0) (\<lambda>C1.
        ebind (if cb then
                 efold (boot_zbin_step ext (opt_number_bootstrap opts) T (mean_p1d_table st)
                          (zbin_centers args) (n_chunks args) k_index nbk zedges)
                   [0..<nbz] C1
               else Inr C1) (\<lambda>C2.
          Inr \<lparr> out_p1d_table = T,
                out_mean_p1d_table = mean_p1d_table st,
                out_metadata_table = metadata,
                out_cov_table = (if with_cov opts T then Some C2 else None),
                out_snrfit_table = snrfit_table st \<rparr>)))))"

definition compute_mean_pk1d ::
  "externals \<Rightarrow> options \<Rightarrow> p1d_table \<Rightarrow> fl list \<Rightarrow> fl list \<Rightarrow> fl list \<Rightarrow> error + outputs" where
  "compute_mean_pk1d ext opts T0 z_array zedges kedges =
     ebind (if opt_velunits opts then velunits_convert ext (colnames (fcols T0)) (fcols T0)
            else Inr (fcols T0)) (\<lambda>F.
       mean_pk1d_grid ext opts (T0\<lparr>fcols := F\<rparr>) (colnames (fcols T0)) z_array zedges kedges)"

section \<open>Auxiliary definitions and example inputs\<close>

text \<open>The wavenumber indices after the first \<open>n\<close> rounds of the loop of lines 282 to 286.\<close>

definition k_index_upto :: "fl list \<Rightarrow> column \<Rightarrow> nat \<Rightarrow> int list" where
  "k_index_upto kedges k n =
     foldl (\<lambda>k_index ikbin.
              map2 (\<lambda>kk old. if in_open_bin kedges ikbin kk then int ikbin else old) k k_index)
       (replicate (length k) (- 1)) [0..<n]"

text \<open>
  A chunk whose clean power is supplied, is not zero anywhere, and sums to zero; and a
  chunk whose clean power sums to three.
\<close>

definition chunk_cancelling :: ftable where
  "chunk_cancelling =
     [(''k'', [Fin 1, Fin 2]), (''Pk'', [Fin 1, Fin (- 1)]), (''Pk_raw'', [Fin 5, Fin 5]),
      (''Pk_noise'', [Fin 1, Fin 1]), (''cor_reso'', [Fin 2, Fin 2])]"

definition chunk_supplied :: ftable where
  "chunk_supplied =
     [(''k'', [Fin 1, Fin 2]), (''Pk'', [Fin 1, Fin 2]), (''Pk_raw'', [Fin 5, Fin 5]),
      (''Pk_noise'', [Fin 1, Fin 1]), (''cor_reso'', [Fin 2, Fin 2])]"

text \<open>
  The textbook standard error of the mean, in the words of the specification: the sample
  standard deviation with \<open>N - 1\<close> in the denominator (\<^verbatim>\<open>ddof = 1\<close>), divided by the
  square root of \<open>N\<close>.
\<close>

definition sample_std_ddof1 :: "fl list \<Rightarrow> fl" where
  "sample_std_ddof1 xs = fsqrt (fdiv (sq_dev xs) (of_count (length xs - 1)))"

definition textbook_sem :: "fl list \<Rightarrow> fl" where
  "textbook_sem xs = fdiv (sample_std_ddof1 xs) (fsqrt (of_count (length xs)))"

text \<open>The entry \<^verbatim>\<open>table[name][i]\<close> of a table of float columns.\<close>

definition cell_value :: "ftable \<Rightarrow> string \<Rightarrow> nat \<Rightarrow> error + fl" where
  "cell_value S name i =
     ebind (getcol S name) (\<lambda>c. if i < length c then Inr (c ! i) else Inl IndexError)"

text \<open>
  Example inputs: the two imported constants, the variance model
  \<open>amp / (snr - 1)\<^sup>2 + zero_point\<close> with a fit that returns fixed coefficients, and a
  resampling that draws every index once; a table of two samples of one chunk, and a grid
  of one redshift bin and one wavenumber bin around them.
\<close>

definition ext0 :: externals where
  "ext0 = \<lparr> LYA = Fin 1215, SPEED_LIGHT = Fin 299792, MEANPK_FITRANGE_SNR = (1, 10),
            fitfunc_variance_pk1d =
              (\<lambda>snr amp zero_point.
                 fadd (fdiv amp (fmul (fsub snr (Fin 1)) (fsub snr (Fin 1)))) zero_point),
            curve_fit = (\<lambda>xdata ydata. Inr (Fin 1, Fin 0)),
            bootstrap = (\<lambda>i n b. replicate b [0..<n]) \<rparr>"


definition ex_args :: "string \<Rightarrow> p1d_table \<Rightarrow> agg_args" where
  "ex_args wm T = \<lparr> p1d = T, p1d_table_cols = colnames (fcols T), weight_method = wm,
                apply_z_weights = False, nomedians = False, nbins_z = 1,
                zbin_centers = [Fin 2], zbin_edges = [Fin 1, Fin 3], n_chunks = [1],
                nbins_k = 1, kbin_edges = [Fin 0, Fin 2] \<rparr>"

definition ex_state :: "p1d_table \<Rightarrow> agg_state" where
  "ex_state T = \<lparr> mean_p1d_table = init_mean_table 1 (colnames (fcols T)) False,
                snrfit_table = None \<rparr>"

text \<open>
  A table whose second clean-power value is NaN, a table whose chunk has quality exactly
  one, options with everything optional switched off, and the entry of the
  mean-statistics table that a run returns.
\<close>

definition ex_p1d_nan :: p1d_table where
  "ex_p1d_nan = \<lparr> fcols = [(''k'', [Fin 1, Fin 1]), (''Pk'', [Fin 1, NaN]),
                            (''forest_z'', [Fin 2, Fin 2]), (''forest_snr'', [Fin 5, Fin 5])],
                  forest_id = [1, 1], sub_forest_id = None \<rparr>"

definition ex_p1d_snr1 :: p1d_table where
  "ex_p1d_snr1 = \<lparr> fcols = [(''k'', [Fin 1, Fin 1]), (''Pk'', [Fin 1, Fin 3]),
                             (''forest_z'', [Fin 2, Fin 2]), (''forest_snr'', [Fin 1, Fin 1])],
                   forest_id = [1, 1], sub_forest_id = None \<rparr>"

definition ex_opts :: "string \<Rightarrow> options" where
  "ex_opts wm = \<lparr> opt_weight_method = wm, opt_apply_z_weights = False, opt_nomedians = False,
                  opt_velunits = False, opt_output_snrfit = False,
                  opt_compute_covariance = False, opt_compute_bootstrap = False,
                  opt_number_bootstrap = 0 \<rparr>"

definition mean_cell :: "error + outputs \<Rightarrow> string \<Rightarrow> nat \<Rightarrow> error + fl" where
  "mean_cell r name i = ebind r (\<lambda>out. cell_value (stats (out_mean_p1d_table out)) name i)"


section \<open>Properties\<close>

subsection \<open>Basic facts\<close>

lemma ebind_Inr_iff: "(ebind m f = Inr y) = (\<exists>x. m = Inr x \<and> f x = Inr y)"
  by (cases m) (simp_all add: ebind_def)

lemma ebind_Inr [simp]: "ebind (Inr x) f = f x"
  by (simp add: ebind_def)

lemma ebind_Inl [simp]: "ebind (Inl e) f = Inl e"
  by (simp add: ebind_def)

lemma efold_append: "efold f (xs @ ys) s = ebind (efold f xs s) (efold f ys)"
  by (induction xs arbitrary: s) (simp_all add: ebind_def split: sum.splits)

lemma getcol_setcol_same: "getcol (setcol name c T) name = Inr c"
  by (induction T) (auto simp: getcol_def setcol_def colnames_def split: if_splits)

subsection \<open>Bin membership\<close>

lemma in_open_bin_Fin:
  assumes "Suc j < length es"
  shows "in_open_bin (map Fin es) j x = (\<exists>v. x = Fin v \<and> es ! j < v \<and> v < es ! Suc j)"
  using assms by (cases x) (auto simp: in_open_bin_def fgt_def)

lemma open_bins_disjoint:
  assumes "sorted_wrt (<) (es::real list)" "Suc j < length es" "Suc j' < length es"
    "es ! j < v" "v < es ! Suc j" "es ! j' < v" "v < es ! Suc j'"
  shows "j = j'"
proof (rule ccontr)
  assume "j \<noteq> j'"
  then consider "j < j'" | "j' < j" by linarith
  then show False
  proof cases
    case 1
    have "es ! Suc j \<le> es ! j'"
    proof (cases "Suc j = j'")
      case False
      with 1 have "Suc j < j'" by simp
      then show ?thesis using sorted_wrt_nth_less[OF assms(1), of "Suc j" j'] assms(3) by simp
    qed simp
    with assms show False by linarith
  next
    case 2
    have "es ! Suc j' \<le> es ! j"
    proof (cases "Suc j' = j")
      case False
      with 2 have "Suc j' < j" by simp
      then show ?thesis using sorted_wrt_nth_less[OF assms(1), of "Suc j'" j] assms(2) by simp
    qed simp
    with assms show False by linarith
  qed
qed

lemma k_index_upto_length: "length (k_index_upto ke k n) = length k"
  by (induction n) (simp_all add: k_index_upto_def)

lemma k_index_upto_Suc:
  "r < length k \<Longrightarrow> k_index_upto ke k (Suc n) ! r =
     (if in_open_bin ke n (k ! r) then int n else k_index_upto ke k n ! r)"
  using k_index_upto_length[of ke k n] by (simp add: k_index_upto_def)

lemma k_index_upto_char:
  assumes "sorted_wrt (<) es" "n \<le> length es - 1" "r < length k"
  shows "(k_index_upto (map Fin es) k n ! r = int j) =
           (j < n \<and> in_open_bin (map Fin es) j (k ! r))"
  using assms(2)
proof (induction n)
  case 0
  then show ?case using assms(3) by (simp add: k_index_upto_def)
next
  case (Suc n)
  then have IH: "(k_index_upto (map Fin es) k n ! r = int j) =
           (j < n \<and> in_open_bin (map Fin es) j (k ! r))" by simp
  show ?case
  proof (cases "in_open_bin (map Fin es) n (k ! r)")
    case True
    have "j = n" if "j < Suc n" "in_open_bin (map Fin es) j (k ! r)"
    proof -
      from True Suc.prems obtain v where v: "k ! r = Fin v" "es ! n < v" "v < es ! Suc n"
        by (auto simp: in_open_bin_Fin)
      from that Suc.prems have "es ! j < v \<and> v < es ! Suc j"
        using v(1) by (auto simp: in_open_bin_Fin)
      then show ?thesis
        using open_bins_disjoint[OF assms(1), of j n v] v Suc.prems that by auto
    qed
    with True show ?thesis using assms(3) by (auto simp: k_index_upto_Suc)
  next
    case False
    then show ?thesis using assms(3) IH by (auto simp: k_index_upto_Suc less_Suc_eq)
  qed
qed

lemma assign_k_index_upto: "assign_k_index ke k = k_index_upto ke k (length ke - 1)"
  by (simp add: assign_k_index_def k_index_upto_def)

text \<open>
  Claim C1, as the code has it. With increasing finite bin edges, row \<open>r\<close> is selected
  for cell \<open>(i, j)\<close> by the aggregation exactly when its redshift lies strictly between
  the edges \<open>i\<close> and \<open>i + 1\<close> and its wavenumber strictly between the edges \<open>j\<close> and
  \<open>j + 1\<close>; and the covariance estimator gives the row the wavenumber index \<open>j\<close> exactly
  when its wavenumber lies strictly between the edges \<open>j\<close> and \<open>j + 1\<close>. Both edges of
  a bin are excluded, and so are NaN and the infinities.
\<close>

theorem bin_membership_open:
  assumes "sorted_wrt (<) zes" "sorted_wrt (<) kes"
    and "Suc i < length zes" "Suc j < length kes"
    and "length z = length k" "r < length k"
  shows "(select_zk (map Fin zes) (map Fin kes) z k i j ! r
            = (\<exists>zv kv. z ! r = Fin zv \<and> k ! r = Fin kv
                 \<and> zes ! i < zv \<and> zv < zes ! Suc i \<and> kes ! j < kv \<and> kv < kes ! Suc j))
       \<and> ((assign_k_index (map Fin kes) k ! r = int j)
            = (\<exists>kv. k ! r = Fin kv \<and> kes ! j < kv \<and> kv < kes ! Suc j))"
proof
  show "select_zk (map Fin zes) (map Fin kes) z k i j ! r
            = (\<exists>zv kv. z ! r = Fin zv \<and> k ! r = Fin kv
                 \<and> zes ! i < zv \<and> zv < zes ! Suc i \<and> kes ! j < kv \<and> kv < kes ! Suc j)"
    using assms(3-6) by (auto simp: select_zk_def in_open_bin_Fin)
  have "j < length kes - 1" using assms(4) by simp
  then show "(assign_k_index (map Fin kes) k ! r = int j)
            = (\<exists>kv. k ! r = Fin kv \<and> kes ! j < kv \<and> kv < kes ! Suc j)"
    using k_index_upto_char[OF assms(2) _ assms(6), of "length kes - 1" j] assms(4)
    by (simp add: assign_k_index_upto in_open_bin_Fin)
qed

theorem bin_membership_open_witness:
  "sorted_wrt (<) [2, 4 :: real] \<and> sorted_wrt (<) [0, 2, 4 :: real]
   \<and> select_zk (map Fin [2, 4]) (map Fin [0, 2, 4]) [Fin 3] [Fin 3] 0 1 ! 0
   \<and> assign_k_index (map Fin [0, 2, 4]) [Fin 3] ! 0 = 1"
  using bin_membership_open [of "[2, 4]" "[0, 2, 4]" 0 1 "[Fin 3]" "[Fin 3]" 0]
  by simp

text \<open>
  The half-open reading of C1 fails on the lower edge: a row whose redshift is the lower
  edge of the redshift bin is not selected, and a row whose wavenumber is the lower edge
  of the wavenumber bin gets no wavenumber index.
\<close>

theorem bin_membership_half_open_counterexample:
  "select_zk [Fin 2, Fin 3] [Fin 0, Fin 1] [Fin 2] [Fin (1 / 2)] 0 0 = [False]
   \<and> assign_k_index [Fin 0, Fin 1] [Fin 0] = [- 1]"
  by (simp add: select_zk_def in_open_bin_def fgt_def assign_k_index_def)

subsection \<open>The clean power of a chunk\<close>

text \<open>
  Claim C9, as the code has it. When the chunk has a \<^verbatim>\<open>Pk\<close> column whose NaN-ignoring
  sum is zero, the column is replaced by \<open>(Pk_raw - Pk_noise) / cor_reso\<close>, row by row;
  when the NaN-ignoring sum is not zero, the chunk is left as it is.
\<close>

theorem derive_pk_by_nansum:
  assumes "getcol T ''Pk'' = Inr pk"
  shows "(feq (nansum pk) (Fin 0) \<longrightarrow>
           getcol T ''Pk_raw'' = Inr raw \<longrightarrow> getcol T ''Pk_noise'' = Inr noise \<longrightarrow>
           getcol T ''cor_reso'' = Inr reso \<longrightarrow>
           ebind (derive_pk T) (\<lambda>T'. getcol T' ''Pk'')
             = Inr (map3 (\<lambda>r n c. fdiv (fsub r n) c) raw noise reso))
       \<and> (\<not> feq (nansum pk) (Fin 0) \<longrightarrow> derive_pk T = Inr T)"
  using assms by (simp add: derive_pk_def getcol_setcol_same)

theorem derive_pk_by_nansum_witness:
  "getcol chunk_cancelling ''Pk'' = Inr [Fin 1, Fin (- 1)]
   \<and> feq (nansum [Fin 1, Fin (- 1)]) (Fin 0)
   \<and> ebind (derive_pk chunk_cancelling) (\<lambda>T'. getcol T' ''Pk'') = Inr [Fin 2, Fin 2]
   \<and> getcol chunk_supplied ''Pk'' = Inr [Fin 1, Fin 2]
   \<and> \<not> feq (nansum [Fin 1, Fin 2]) (Fin 0)
   \<and> derive_pk chunk_supplied = Inr chunk_supplied"
  using derive_pk_by_nansum [of chunk_cancelling "[Fin 1, Fin (- 1)]"
          "[Fin 5, Fin 5]" "[Fin 1, Fin 1]" "[Fin 2, Fin 2]"]
        derive_pk_by_nansum [of chunk_supplied "[Fin 1, Fin 2]"]
  by (simp add: chunk_cancelling_def chunk_supplied_def getcol_def nansum_def isnan_def
        map3_def fsub_def)

text \<open>
  C9 as stated fails for a supplied column that is zero nowhere: the values \<open>1\<close> and
  \<open>-1\<close> sum to zero, and the reader overwrites them.
\<close>

theorem derive_pk_supplied_counterexample:
  "getcol chunk_cancelling ''Pk'' = Inr [Fin 1, Fin (- 1)]
   \<and> ebind (derive_pk chunk_cancelling) (\<lambda>T'. getcol T' ''Pk'') = Inr [Fin 2, Fin 2]"
  by (simp add: chunk_cancelling_def derive_pk_def getcol_def setcol_def colnames_def
        nansum_def isnan_def map3_def fsub_def)


lemma map_of_replace_other:
  "n' \<noteq> n \<Longrightarrow> map_of (map (\<lambda>(m, c'). (m, if m = n then c else c')) T) n' = map_of T n'"
  by (induction T) auto

lemma map_of_append_other: "n' \<noteq> n \<Longrightarrow> map_of (T @ [(n, c)]) n' = map_of T n'"
  by (induction T) auto

lemma getcol_setcol_other: "n' \<noteq> n \<Longrightarrow> getcol (setcol n c T) n' = getcol T n'"
  by (simp add: getcol_def setcol_def map_of_replace_other map_of_append_other
        del: map_of_append)

lemma cell_value_put_stat:
  assumes "put_stat n i v S = Inr S'"
  shows "cell_value S' n' j = (if n' = n \<and> j = i then Inr v else cell_value S n' j)"
proof -
  from assms obtain c where c: "getcol S n = Inr c" "i < length c" "S' = setcol n (c[i := v]) S"
    by (auto simp: put_stat_def put_at_def ebind_Inr_iff split: if_splits)
  show ?thesis
  proof (cases "n' = n")
    case True
    then show ?thesis using c
      by (auto simp: cell_value_def getcol_setcol_same)
  next
    case False
    then show ?thesis using c by (simp add: cell_value_def getcol_setcol_other)
  qed
qed

subsection \<open>The unweighted mean and its error\<close>

lemma sem_forms_agree:
  assumes "1 \<le> n"
  shows "fdiv (fsqrt (fdiv S (of_count n))) (fsqrt (of_integer (int n - 1)))
       = fdiv (fsqrt (fdiv S (of_count (n - 1)))) (fsqrt (of_count n))"
proof (cases "n = 1")
  case True
  then show ?thesis
    by (cases S) (auto simp: of_count_def of_integer_def)
next
  case False
  with assms have n: "2 \<le> n" by simp
  then have r: "real_of_int (int n - 1) = real (n - 1)" by simp
  have pos: "0 < real n" "0 < real (n - 1)" using n by simp_all
  show ?thesis
  proof (cases S)
    case (Fin s)
    show ?thesis
    proof (cases "s < 0")
      case True
      with pos have "s / real n < 0" "s / real (n - 1) < 0"
        by (simp_all add: divide_neg_pos)
      then show ?thesis using Fin pos by (simp add: of_count_def of_integer_def)
    next
      case False
      then have "0 \<le> s / real n" "0 \<le> s / real (n - 1)" using pos by simp_all
      moreover have "sqrt (s / real n) / sqrt (real (n - 1)) = sqrt (s / real (n - 1)) / sqrt (real n)"
        by (simp add: real_sqrt_divide)
      ultimately show ?thesis using Fin pos r
        by (simp add: of_count_def of_integer_def)
    qed
  qed (use pos r in \<open>simp_all add: of_count_def of_integer_def\<close>)
qed

lemma no_weights_error_is_sem:
  assumes "vals \<noteq> []"
  shows "no_weights_stats False rw vals (length vals) = Inr (np_mean vals, textbook_sem vals)"
proof -
  have "1 \<le> length vals" using assms by (cases vals) simp_all
  from sem_forms_agree[OF this, of "sq_dev vals"] show ?thesis
    by (simp add: no_weights_stats_def np_std_def textbook_sem_def sample_std_ddof1_def)
qed

lemma fsum_Fin: "fsum (map Fin rs) = Fin (sum_list rs)"
  by (induction rs) simp_all

lemma np_mean_Fin: "rs \<noteq> [] \<Longrightarrow> np_mean (map Fin rs) = Fin (sum_list rs / real (length rs))"
  by (simp add: np_mean_def fsum_Fin of_count_def)

lemma fsum_sq_Fin:
  "fsum (map (\<lambda>x. fmul (fsub x (Fin m)) (fsub x (Fin m))) (map Fin xs))
     = Fin (\<Sum>r\<leftarrow>xs. (r - m) * (r - m))"
  by (induction xs) (simp_all add: fsub_def)

lemma sq_dev_Fin:
  assumes "rs \<noteq> []"
  shows "sq_dev (map Fin rs)
     = Fin (\<Sum>r\<leftarrow>rs. (r - sum_list rs / real (length rs)) * (r - sum_list rs / real (length rs)))"
proof -
  have "sq_dev (map Fin rs)
      = fsum (map (\<lambda>x. fmul (fsub x (Fin (sum_list rs / real (length rs))))
                            (fsub x (Fin (sum_list rs / real (length rs))))) (map Fin rs))"
    unfolding sq_dev_def np_mean_Fin[OF assms] ..
  then show ?thesis by (simp only: fsum_sq_Fin)
qed

lemma textbook_sem_Fin:
  assumes "2 \<le> length rs"
  shows "textbook_sem (map Fin rs)
     = Fin (sqrt ((\<Sum>r\<leftarrow>rs. (r - sum_list rs / real (length rs)) * (r - sum_list rs / real (length rs)))
                   / real (length rs - 1)) / sqrt (real (length rs)))"
proof -
  have ne: "rs \<noteq> []" using assms by auto
  have "0 \<le> (\<Sum>r\<leftarrow>rs. (r - m) * (r - m))" for m
    by (rule sum_list_nonneg) auto
  then have "0 \<le> (\<Sum>r\<leftarrow>rs. (r - m) * (r - m)) / real (length rs - 1)" for m
    by simp
  then show ?thesis using assms ne
    by (simp add: textbook_sem_def sample_std_ddof1_def sq_dev_Fin[OF ne] of_count_def not_less)
qed

subsection \<open>NaN values in the member values\<close>

lemmas eval_defs = compute_mean_pk1d_def mean_pk1d_grid_def agg_args_of_def initial_state_def
  with_cov_def fill_average_pk_redshift_def fill_cell_def
  cell_selection_def select_zk_def in_open_bin_def fgt_def fle_def
  fill_column_def put_stats_def weighted_stats_def ex_opts_def ext0_def
  sel_col_def getcol_def by_mask_def no_weights_stats_def simple_snr_stats_def
  np_mean_def np_std_def sq_dev_def np_average_def
  of_count_def of_integer_def fsub_def np_min_def np_max_def isnan_def put_stat_def put_at_def
  setcol_def colnames_def init_mean_table_def init_cov_table_def stats_array_def
  np_median_def fsort_def binned_count_def in_hist_bin_def zbin_centers_of_def
  round_half_even_def Let_def mean_cell_def cell_value_def

text \<open>
  Claim C6 does not hold of the code. Only the \<^verbatim>\<open>fit_snr\<close> branch masks the NaN entries
  of the member values (lines 588 to 595). For a cell with the two clean-power values
  \<open>1\<close> and NaN, a run with \<^verbatim>\<open>no_weights\<close> reports NaN as the mean and as the error, a run
  with \<^verbatim>\<open>simple_snr\<close> reports NaN as the mean, and a run with \<^verbatim>\<open>fit_snr\<close> reports the
  mean \<open>1\<close> of the remaining value.
\<close>

theorem nan_propagates_without_fit_snr:
  "mean_cell (compute_mean_pk1d ext0 (ex_opts ''no_weights'') ex_p1d_nan [Fin 2]
      [Fin 1, Fin 3] [Fin 0, Fin 2]) ''meanPk'' 0 = Inr NaN
   \<and> mean_cell (compute_mean_pk1d ext0 (ex_opts ''no_weights'') ex_p1d_nan [Fin 2]
      [Fin 1, Fin 3] [Fin 0, Fin 2]) ''errorPk'' 0 = Inr NaN
   \<and> mean_cell (compute_mean_pk1d ext0 (ex_opts ''simple_snr'') ex_p1d_nan [Fin 2]
      [Fin 1, Fin 3] [Fin 0, Fin 2]) ''meanPk'' 0 = Inr NaN
   \<and> mean_cell (compute_mean_pk1d ext0 (ex_opts ''fit_snr'') ex_p1d_nan [Fin 2]
      [Fin 1, Fin 3] [Fin 0, Fin 2]) ''meanPk'' 0 = Inr (Fin 1)"
proof (intro conjI)
  show "mean_cell (compute_mean_pk1d ext0 (ex_opts ''no_weights'') ex_p1d_nan [Fin 2]
      [Fin 1, Fin 3] [Fin 0, Fin 2]) ''meanPk'' 0 = Inr NaN"
    by (simp add: eval_defs ex_p1d_nan_def)
  show "mean_cell (compute_mean_pk1d ext0 (ex_opts ''no_weights'') ex_p1d_nan [Fin 2]
      [Fin 1, Fin 3] [Fin 0, Fin 2]) ''errorPk'' 0 = Inr NaN"
    by (simp add: eval_defs ex_p1d_nan_def)
  show "mean_cell (compute_mean_pk1d ext0 (ex_opts ''simple_snr'') ex_p1d_nan [Fin 2]
      [Fin 1, Fin 3] [Fin 0, Fin 2]) ''meanPk'' 0 = Inr NaN"
    by (simp add: eval_defs ex_p1d_nan_def)
  show "mean_cell (compute_mean_pk1d ext0 (ex_opts ''fit_snr'') ex_p1d_nan [Fin 2]
      [Fin 1, Fin 3] [Fin 0, Fin 2]) ''meanPk'' 0 = Inr (Fin 1)"
    by (simp add: eval_defs ex_p1d_nan_def fit_snr_stats_def binned_std_def
        snr_bin_edges_def snr_bins_def clamp_snr_def imul_def upto.simps)
qed

subsection \<open>The conversion to velocity units\<close>










end
